theory Spec2Isabelle
  imports Complex_Main
begin

section \<open>Numbers\<close>

text \<open>
  The engine computes on numpy float64 values. The model idealises a finite float as a
  \<^typ>\<open>real\<close> (exact arithmetic, no rounding error, no overflow) and keeps the IEEE special
  values where the source can produce them from finite inputs: at a division whose
  denominator is not guarded against zero. numpy's scalar division does not raise there;
  it returns an infinity or NaN (with a RuntimeWarning). Zero is unsigned in the model.
\<close>

datatype fp = Fin real | PInf | NInf | NaN

definition np_div :: "real \<Rightarrow> real \<Rightarrow> fp" where
  "np_div a b =
     (if b \<noteq> 0 then Fin (a / b)
      else if a > 0 then PInf
      else if a < 0 then NInf
      else NaN)"

fun fp_times :: "fp \<Rightarrow> real \<Rightarrow> fp" where
  "fp_times (Fin x) c = Fin (x * c)"
| "fp_times PInf c = (if c > 0 then PInf else if c < 0 then NInf else NaN)"
| "fp_times NInf c = (if c > 0 then NInf else if c < 0 then PInf else NaN)"
| "fp_times NaN c = NaN"

text \<open>Comparisons with a finite constant: every comparison with NaN is false.\<close>

fun fp_gt :: "fp \<Rightarrow> real \<Rightarrow> bool" where
  "fp_gt (Fin x) c = (x > c)"
| "fp_gt PInf c = True"
| "fp_gt NInf c = False"
| "fp_gt NaN c = False"

fun fp_lt :: "fp \<Rightarrow> real \<Rightarrow> bool" where
  "fp_lt (Fin x) c = (x < c)"
| "fp_lt PInf c = False"
| "fp_lt NInf c = True"
| "fp_lt NaN c = False"

text \<open>\<open>round(x, n)\<close>: to \<open>n\<close> decimals, ties to the even neighbour.\<close>

definition round_half_even :: "real \<Rightarrow> int" where
  "round_half_even x =
     (let f = \<lfloor>x\<rfloor>; d = x - of_int f
      in if d < 1 / 2 then f
         else if d > 1 / 2 then f + 1
         else if even f then f else f + 1)"

definition py_round :: "nat \<Rightarrow> real \<Rightarrow> real" where
  "py_round n x = of_int (round_half_even (x * 10 ^ n)) / 10 ^ n"

fun fp_round :: "nat \<Rightarrow> fp \<Rightarrow> fp" where
  "fp_round n (Fin x) = Fin (py_round n x)"
| "fp_round n PInf = PInf"
| "fp_round n NInf = NInf"
| "fp_round n NaN = NaN"

section \<open>Data model\<close>

text \<open>
  One OHLCV bar, as the adapters build it: a dict with these six keys, the prices
  finite numbers. A bar with a NaN price is outside the model.
\<close>

record bar =
  bar_time :: string
  bar_open :: real
  bar_high :: real
  bar_low :: real
  bar_close :: real
  bar_volume :: int

text \<open>
  The adapter payload after \<open>json.loads\<close>: a dict from keys to values. A value is a
  text, a number or a list of bars.
\<close>

datatype jin = JText string | JNumber real | JBars "bar list"

type_synonym payload = "string \<rightharpoonup> jin"

text \<open>The values of the record that \<open>trend_analysis\<close> serialises.\<close>

datatype jv = S string | N fp | I int | B bool | Obj "(string \<times> jv) list"

text \<open>
  What \<open>trend_analysis\<close> returns: the adapter payload passed through unchanged
  (\<open>json.dumps(data)\<close>), or a record of its own, keys in the order of the source.
\<close>

datatype reply = Echo payload | Record "(string \<times> jv) list"

text \<open>
  The three bar fetchers wrap a call to the market-data service; the model takes what
  they return as given. Each call is logged, so that a run that fetches nothing is
  told apart from one that fetches.
\<close>

record adapter =
  price_ohlcv_weekly_hourly :: "string \<Rightarrow> payload"
  price_ohlcv_month_hourly :: "string \<Rightarrow> payload"
  price_ohlcv_200d_daily :: "string \<Rightarrow> payload"

datatype fetch_call = Weekly_hourly string | Month_hourly string | Daily_200d string

section \<open>Strings\<close>

text \<open>\<open>str.upper\<close> on ASCII text: the letters a to z move to A to Z.\<close>

definition upper_char :: "char \<Rightarrow> char" where
  "upper_char c =
     (let n = (of_char c :: nat)
      in if 97 \<le> n \<and> n \<le> 122 then char_of (n - 32) else c)"

definition upper :: "string \<Rightarrow> string" where
  "upper s = map upper_char s"

definition quoted :: "string \<Rightarrow> string" where
  "quoted s = CHR 0x27 # s @ [CHR 0x27]"

definition period_error :: string where
  "period_error =
     ''period must be '' @ quoted ''7d'' @ '', '' @ quoted ''30d'' @ '', or '' @ quoted ''200d''"

definition low_bar_warning :: string where
  "low_bar_warning = ''Low bar count, accuracy reduced''"

section \<open>Series operations of numpy and pandas\<close>

text \<open>\<open>xs[-n:]\<close>: the last \<open>n\<close> elements, all of them when there are fewer.\<close>

definition last_n :: "nat \<Rightarrow> 'a list \<Rightarrow> 'a list" where
  "last_n n xs = drop (length xs - n) xs"

definition mean :: "real list \<Rightarrow> real" where
  "mean xs = sum_list xs / real (length xs)"

text \<open>
  \<open>pd.Series(xs).rolling(w).mean().iloc[-1]\<close> and \<open>.std()\<close> (sample standard deviation,
  ddof = 1) for a series of at least \<open>w\<close> values, the only case the engine reaches: the
  bar-count guard leaves at least 30 closes and 29 deltas.
\<close>

definition rolling_mean_last :: "nat \<Rightarrow> real list \<Rightarrow> real" where
  "rolling_mean_last w xs = mean (last_n w xs)"

definition rolling_std_last :: "nat \<Rightarrow> real list \<Rightarrow> real" where
  "rolling_std_last w xs =
     (let win = last_n w xs; m = mean win
      in sqrt (sum_list (map (\<lambda>x. (x - m)\<^sup>2) win) / (real (length win) - 1)))"

text \<open>\<open>np.diff\<close>: the differences of neighbours, later minus earlier.\<close>

definition diff :: "real list \<Rightarrow> real list" where
  "diff xs = map (\<lambda>(a, b). b - a) (zip xs (tl xs))"

text \<open>
  \<open>ewm(span=n, adjust=False).mean()\<close>: \<open>y\<^sub>0 = x\<^sub>0\<close> and
  \<open>y\<^sub>t = (1 - \<alpha>) y\<^sub>t\<^sub>-\<^sub>1 + \<alpha> x\<^sub>t\<close> with \<open>\<alpha> = 2 / (n + 1)\<close>.
\<close>

fun ewm_rec :: "real \<Rightarrow> real \<Rightarrow> real list \<Rightarrow> real list" where
  "ewm_rec a y [] = []"
| "ewm_rec a y (x # xs) = ((1 - a) * y + a * x) # ewm_rec a ((1 - a) * y + a * x) xs"

definition ewm_mean_noadjust :: "nat \<Rightarrow> real list \<Rightarrow> real list" where
  "ewm_mean_noadjust n xs =
     (case xs of [] \<Rightarrow> [] | x # rest \<Rightarrow> x # ewm_rec (2 / (real n + 1)) x rest)"

text \<open>
  \<open>ewm(span=n).mean()\<close>, pandas' default \<open>adjust=True\<close>: the weighted average
  \<open>y\<^sub>t = (x\<^sub>t + (1 - \<alpha>) x\<^sub>t\<^sub>-\<^sub>1 + \<dots> + (1 - \<alpha>)\<^sup>t x\<^sub>0) / (1 + (1 - \<alpha>) + \<dots> + (1 - \<alpha>)\<^sup>t)\<close>,
  computed with a running numerator and denominator.
\<close>

fun ewm_adj_rec :: "real \<Rightarrow> real \<Rightarrow> real \<Rightarrow> real list \<Rightarrow> real list" where
  "ewm_adj_rec a num den [] = []"
| "ewm_adj_rec a num den (x # xs) =
     ((x + (1 - a) * num) / (1 + (1 - a) * den))
       # ewm_adj_rec a (x + (1 - a) * num) (1 + (1 - a) * den) xs"

definition ewm_mean :: "nat \<Rightarrow> real list \<Rightarrow> real list" where
  "ewm_mean n xs =
     (case xs of [] \<Rightarrow> [] | x # rest \<Rightarrow> x # ewm_adj_rec (2 / (real n + 1)) x 1 rest)"

definition series_minus :: "real list \<Rightarrow> real list \<Rightarrow> real list" where
  "series_minus xs ys = map (\<lambda>(a, b). a - b) (zip xs ys)"

text \<open>\<open>s.iloc[-2]\<close> on a series of at least two values.\<close>

definition last_but_one :: "real list \<Rightarrow> real" where
  "last_but_one xs = xs ! (length xs - 2)"

definition maximum :: "real list \<Rightarrow> real" where
  "maximum xs = fold max (tl xs) (hd xs)"

definition minimum :: "real list \<Rightarrow> real" where
  "minimum xs = fold min (tl xs) (hd xs)"

section \<open>The indicators of \<open>trend_analysis\<close>\<close>

definition closes :: "bar list \<Rightarrow> real list" where
  "closes bars = map bar_close bars"

definition volumes :: "bar list \<Rightarrow> real list" where
  "volumes bars = map (\<lambda>b. real_of_int (bar_volume b)) bars"

text \<open>1. Price change.\<close>

definition pct_change :: "real list \<Rightarrow> fp" where
  "pct_change close = fp_times (np_div (last close - hd close) (hd close)) 100"

text \<open>2. EMA crossover (9 and 21).\<close>

definition ema9 :: "real list \<Rightarrow> real" where
  "ema9 close = last (ewm_mean_noadjust 9 close)"

definition ema21 :: "real list \<Rightarrow> real" where
  "ema21 close = last (ewm_mean_noadjust 21 close)"

definition ema_trend :: "real list \<Rightarrow> string" where
  "ema_trend close = (if ema9 close > ema21 close then ''bullish'' else ''bearish'')"

text \<open>3. MACD.\<close>

definition macd_line :: "real list \<Rightarrow> real list" where
  "macd_line close = series_minus (ewm_mean 12 close) (ewm_mean 26 close)"

definition signal_line :: "real list \<Rightarrow> real list" where
  "signal_line close = ewm_mean 9 (macd_line close)"

definition macd_hist :: "real list \<Rightarrow> real list" where
  "macd_hist close = series_minus (macd_line close) (signal_line close)"

definition macd_signal :: "real list \<Rightarrow> string" where
  "macd_signal close =
     (if last (macd_line close) > last (signal_line close)
         \<and> last (macd_hist close) > last_but_one (macd_hist close)
      then ''bullish'' else ''bearish'')"

text \<open>4. RSI (14).\<close>

definition gain :: "real list \<Rightarrow> real list" where
  "gain close = map (\<lambda>d. if d > 0 then d else 0) (diff close)"

definition loss :: "real list \<Rightarrow> real list" where
  "loss close = map (\<lambda>d. if d < 0 then - d else 0) (diff close)"

definition avg_gain :: "real list \<Rightarrow> real" where
  "avg_gain close = rolling_mean_last 14 (gain close)"

definition avg_loss :: "real list \<Rightarrow> real" where
  "avg_loss close = rolling_mean_last 14 (loss close)"

definition rs :: "real list \<Rightarrow> real" where
  "rs close = (if avg_loss close \<noteq> 0 then avg_gain close / avg_loss close else 100)"

definition rsi :: "real list \<Rightarrow> real" where
  "rsi close =
     (if rs close > 0 then 100 - 100 / (1 + rs close)
      else if avg_gain close = 0 then 0 else 100)"

text \<open>5. Bollinger bands.\<close>

definition sma20 :: "real list \<Rightarrow> real" where
  "sma20 close = rolling_mean_last 20 close"

definition std20 :: "real list \<Rightarrow> real" where
  "std20 close = rolling_std_last 20 close"

definition upper_band :: "real list \<Rightarrow> real" where
  "upper_band close = sma20 close + 2 * std20 close"

definition lower_band :: "real list \<Rightarrow> real" where
  "lower_band close = sma20 close - 2 * std20 close"

definition bb_width :: "real list \<Rightarrow> fp" where
  "bb_width close = np_div (upper_band close - lower_band close) (sma20 close)"

definition bb_position :: "real list \<Rightarrow> real" where
  "bb_position close =
     (if upper_band close \<noteq> lower_band close
      then (last close - lower_band close) / (upper_band close - lower_band close)
      else 1 / 2)"

definition bb_squeeze :: "real list \<Rightarrow> bool" where
  "bb_squeeze close = fp_lt (bb_width close) (8 / 100)"

text \<open>6. Volume trend.\<close>

definition vol_sma :: "real list \<Rightarrow> real" where
  "vol_sma volume = rolling_mean_last 20 volume"

definition vol_ratio :: "real list \<Rightarrow> real" where
  "vol_ratio volume = (if vol_sma volume > 0 then last volume / vol_sma volume else 1)"

text \<open>7. Support and resistance.\<close>

definition resistance :: "bar list \<Rightarrow> real" where
  "resistance bars = maximum (last_n 20 (map bar_high bars))"

definition support :: "bar list \<Rightarrow> real" where
  "support bars = minimum (last_n 20 (map bar_low bars))"

text \<open>8. Trend strength score.\<close>

definition score :: "bar list \<Rightarrow> int" where
  "score bars =
     (let close = closes bars;
          s0 = 50;
          s1 = s0 + (if fp_gt (pct_change close) 3 then 15
                     else if fp_lt (pct_change close) (- 3) then - 15 else 0);
          s2 = s1 + (if ema_trend close = ''bullish'' then 15 else - 15);
          s3 = s2 + (if macd_signal close = ''bullish'' then 15 else - 15);
          s4 = s3 + (if rsi close > 55 then 10 else if rsi close < 45 then - 10 else 0);
          s5 = s4 + (if last close > sma20 close then 10 else - 10);
          s6 = s5 + (if vol_ratio (volumes bars) > 13 / 10 then 8 else - 8)
      in max 0 (min 100 s6))"

text \<open>9. Final verdict: the verdict and the confidence.\<close>

definition verdict :: "int \<Rightarrow> string \<times> string" where
  "verdict sc =
     (if sc \<ge> 75 then (''VERY BULLISH'', ''High'')
      else if sc \<ge> 60 then (''BULLISH'', ''Moderate-High'')
      else if sc \<ge> 40 then (''NEUTRAL'', ''Low'')
      else if sc \<ge> 25 then (''BEARISH'', ''Moderate-High'')
      else (''VERY BEARISH'', ''High''))"

definition bollinger_position :: "real list \<Rightarrow> string" where
  "bollinger_position close =
     (if bb_position close > 8 / 10 then ''near top''
      else if bb_position close < 2 / 10 then ''near bottom''
      else ''middle'')"

definition near_level :: "real \<Rightarrow> real \<Rightarrow> bool" where
  "near_level c level = fp_lt (np_div \<bar>c - level\<bar> c) (1 / 100)"

text \<open>The result record, built from a list of at least 30 bars.\<close>

definition result :: "string \<Rightarrow> string \<Rightarrow> bar list \<Rightarrow> (string \<times> jv) list" where
  "result symbol period bars =
     (let close = closes bars in
      [(''symbol'', S symbol),
       (''analysis_period'', S (''Last '' @ period)),
       (''current_price'', N (Fin (py_round 4 (last close)))),
       (''price_change_percent'', N (fp_round 2 (pct_change close))),
       (''trend_verdict'', S (fst (verdict (score bars)))),
       (''confidence'', S (snd (verdict (score bars)))),
       (''trend_strength_score'', I (score bars)),
       (''key_signals'', Obj
          [(''ema_9_21'', S (upper (ema_trend close))),
           (''macd'', S (upper (macd_signal close))),
           (''rsi_14'', N (Fin (py_round 2 (rsi close)))),
           (''bollinger_position'', S (bollinger_position close)),
           (''bb_squeeze'', S (if bb_squeeze close then ''YES'' else ''NO'')),
           (''volume_spike'', B (vol_ratio (volumes bars) > 15 / 10)),
           (''near_resistance'', B (near_level (last close) (resistance bars))),
           (''near_support'', B (near_level (last close) (support bars)))]),
       (''levels'', Obj
          [(''resistance'', N (Fin (py_round 4 (resistance bars)))),
           (''support'', N (Fin (py_round 4 (support bars)))),
           (''sma_20'', N (Fin (py_round 4 (sma20 close))))])])"

section \<open>\<open>trend_analysis\<close>\<close>

text \<open>
  The branch on the period: which fetcher runs and under which key its payload holds
  the bars. Any other period selects nothing.
\<close>

definition fetch :: "adapter \<Rightarrow> string \<Rightarrow> string \<Rightarrow> (fetch_call \<times> payload \<times> string) option" where
  "fetch ad period symbol =
     (if period = ''7d''
      then Some (Weekly_hourly symbol, price_ohlcv_weekly_hourly ad symbol, ''hourly_ohlcv_last_week'')
      else if period = ''30d''
      then Some (Month_hourly symbol, price_ohlcv_month_hourly ad symbol, ''hourly_ohlcv_1month'')
      else if period = ''200d''
      then Some (Daily_200d symbol, price_ohlcv_200d_daily ad symbol, ''daily_ohlcv_200d'')
      else None)"

text \<open>
  The exceptions the body can raise on a payload of the modelled shape, and the text
  \<open>str(e)\<close> that the handler puts into the error record: \<open>len\<close> of a number, and a
  data frame built from a text.
\<close>

datatype exn = TypeError_len | ValueError_frame

definition exn_text :: "exn \<Rightarrow> string" where
  "exn_text e =
     (case e of
        TypeError_len \<Rightarrow> ''object of type '' @ quoted ''float'' @ '' has no len()''
      | ValueError_frame \<Rightarrow> ''DataFrame constructor not properly called!'')"

definition warning_record :: "string \<Rightarrow> (string \<times> jv) list" where
  "warning_record symbol = [(''symbol'', S symbol), (''warning'', S low_bar_warning)]"

definition error_record :: "string \<Rightarrow> exn \<Rightarrow> (string \<times> jv) list" where
  "error_record symbol e = [(''symbol'', S symbol), (''error'', S (exn_text e))]"

text \<open>
  The body after the fetch: \<open>data\<close> is the parsed payload, \<open>key\<close> the key of the bars.
\<close>

definition analyse :: "string \<Rightarrow> string \<Rightarrow> payload \<Rightarrow> string \<Rightarrow> reply" where
  "analyse symbol period data key =
     (if data ''error'' \<noteq> None then Echo data
      else case data key of
             None \<Rightarrow> Record (warning_record symbol)
           | Some (JBars bars) \<Rightarrow>
               if length bars < 30 then Record (warning_record symbol)
               else Record (result symbol period bars)
           | Some (JText t) \<Rightarrow>
               if length t < 30 then Record (warning_record symbol)
               else Record (error_record symbol ValueError_frame)
           | Some (JNumber x) \<Rightarrow> Record (error_record symbol TypeError_len))"

definition trend_analysis :: "adapter \<Rightarrow> string \<Rightarrow> string \<Rightarrow> fetch_call list \<times> reply" where
  "trend_analysis ad symbol0 period =
     (let symbol = upper symbol0
      in case fetch ad period symbol of
           None \<Rightarrow> ([], Record [(''error'', S period_error)])
         | Some (call, data, key) \<Rightarrow> ([call], analyse symbol period data key))"

section \<open>Reading a reply\<close>

text \<open>A field of the record that was returned; a passed-through payload has none.\<close>

fun record_field :: "string \<Rightarrow> reply \<Rightarrow> jv option" where
  "record_field k (Record r) = map_of r k"
| "record_field k (Echo d) = None"

text \<open>An entry of the \<open>key_signals\<close> block of the returned record.\<close>

definition key_signal :: "string \<Rightarrow> reply \<Rightarrow> jv option" where
  "key_signal k r =
     (case record_field ''key_signals'' r of Some (Obj kv) \<Rightarrow> map_of kv k | _ \<Rightarrow> None)"

section \<open>The specification's verdict table\<close>

text \<open>
  The threshold table as the specification words it: rows read from the highest
  threshold down, the first row whose threshold the score reaches gives the verdict and
  the confidence, and below every row the verdict is VERY BEARISH with High confidence.
\<close>

definition spec_threshold_table :: "(int \<times> string \<times> string) list" where
  "spec_threshold_table =
     [(75, ''VERY BULLISH'', ''High''),
      (60, ''BULLISH'', ''Moderate-High''),
      (40, ''NEUTRAL'', ''Low''),
      (25, ''BEARISH'', ''Moderate-High'')]"

fun spec_first_match :: "int \<Rightarrow> (int \<times> string \<times> string) list \<Rightarrow> string \<times> string" where
  "spec_first_match sc [] = (''VERY BEARISH'', ''High'')"
| "spec_first_match sc ((t, v) # rows) = (if sc \<ge> t then v else spec_first_match sc rows)"

text \<open>
  The exponential moving average as the specification words it: smoothing factor
  \<open>\<alpha> = 2 / (span + 1)\<close>, the recurrence \<open>y\<^sub>t = \<alpha> x\<^sub>t + (1 - \<alpha>) y\<^sub>t\<^sub>-\<^sub>1\<close> seeded by the first
  value, no bias adjustment; and the MACD series built on it.
\<close>

fun spec_ema_from :: "real \<Rightarrow> real \<Rightarrow> real list \<Rightarrow> real list" where
  "spec_ema_from \<alpha> y [] = []"
| "spec_ema_from \<alpha> y (x # xs) =
     (\<alpha> * x + (1 - \<alpha>) * y) # spec_ema_from \<alpha> (\<alpha> * x + (1 - \<alpha>) * y) xs"

fun spec_ema :: "nat \<Rightarrow> real list \<Rightarrow> real list" where
  "spec_ema n [] = []"
| "spec_ema n (x # xs) = x # spec_ema_from (2 / (real n + 1)) x xs"

definition spec_macd_line :: "real list \<Rightarrow> real list" where
  "spec_macd_line close = map (\<lambda>(a, b). a - b) (zip (spec_ema 12 close) (spec_ema 26 close))"

definition spec_signal_line :: "real list \<Rightarrow> real list" where
  "spec_signal_line close = spec_ema 9 (spec_macd_line close)"

text \<open>
  The all-gain window of the RSI boundary case: the last 14 close-to-close deltas are
  all non-negative and one of them is positive.
\<close>

definition all_gain_window :: "real list \<Rightarrow> bool" where
  "all_gain_window close =
     (list_all (\<lambda>d. 0 \<le> d) (last_n 14 (diff close))
      \<and> list_ex (\<lambda>d. 0 < d) (last_n 14 (diff close)))"

section \<open>Sample inputs\<close>

text \<open>Bars of January 2024, one a day, flat within the day, volume 1000.\<close>

definition day_text :: "nat \<Rightarrow> string" where
  "day_text i = [char_of (48 + i div 10), char_of (48 + i mod 10)]"

definition mk_bar :: "nat \<times> real \<Rightarrow> bar" where
  "mk_bar p =
     \<lparr>bar_time = ''2024-01-'' @ day_text (fst p), bar_open = snd p, bar_high = snd p,
      bar_low = snd p, bar_close = snd p, bar_volume = 1000\<rparr>"

definition bars_of_closes :: "real list \<Rightarrow> bar list" where
  "bars_of_closes cs = map mk_bar (enumerate 1 cs)"

text \<open>Thirty closes rising by one a day from 1 to 30.\<close>

definition rising_closes :: "real list" where
  "rising_closes =
     [1, 2, 3, 4, 5, 6, 7, 8, 9, 10, 11, 12, 13, 14, 15,
      16, 17, 18, 19, 20, 21, 22, 23, 24, 25, 26, 27, 28, 29, 30]"

text \<open>Thirty closes that start at zero and rise by one a day.\<close>

definition from_zero_closes :: "real list" where
  "from_zero_closes =
     [0, 1, 2, 3, 4, 5, 6, 7, 8, 9, 10, 11, 12, 13, 14,
      15, 16, 17, 18, 19, 20, 21, 22, 23, 24, 25, 26, 27, 28, 29]"

text \<open>Thirty equal closes.\<close>

definition flat_closes :: "real list" where
  "flat_closes =
     [10, 10, 10, 10, 10, 10, 10, 10, 10, 10, 10, 10, 10, 10, 10,
      10, 10, 10, 10, 10, 10, 10, 10, 10, 10, 10, 10, 10, 10, 10]"

text \<open>Ten closes only.\<close>

definition short_closes :: "real list" where
  "short_closes = [1, 2, 3, 4, 5, 6, 7, 8, 9, 10]"

text \<open>
  A well-formed payload holding the bars under the given key, and an adapter whose
  three fetchers answer with the bars of the given closes under their own keys.
\<close>

definition bar_payload :: "string \<Rightarrow> string \<Rightarrow> bar list \<Rightarrow> payload" where
  "bar_payload symbol key bars =
     [''symbol'' \<mapsto> JText symbol,
      ''total_bars'' \<mapsto> JNumber (real (length bars)),
      key \<mapsto> JBars bars]"

definition adapter_of :: "real list \<Rightarrow> adapter" where
  "adapter_of cs =
     \<lparr>price_ohlcv_weekly_hourly = (\<lambda>s. bar_payload s ''hourly_ohlcv_last_week'' (bars_of_closes cs)),
      price_ohlcv_month_hourly = (\<lambda>s. bar_payload s ''hourly_ohlcv_1month'' (bars_of_closes cs)),
      price_ohlcv_200d_daily = (\<lambda>s. bar_payload s ''daily_ohlcv_200d'' (bars_of_closes cs))\<rparr>"

text \<open>An adapter whose payloads carry neither an error nor any bar list.\<close>

definition keyless_adapter :: adapter where
  "keyless_adapter =
     \<lparr>price_ohlcv_weekly_hourly = (\<lambda>s. [''symbol'' \<mapsto> JText s]),
      price_ohlcv_month_hourly = (\<lambda>s. [''symbol'' \<mapsto> JText s]),
      price_ohlcv_200d_daily = (\<lambda>s. [''symbol'' \<mapsto> JText s])\<rparr>"

section \<open>Facts about the model\<close>

lemma upper_aapl: "upper ''aapl'' = ''AAPL''"
  by code_simp

lemma closes_bars_of: "closes (bars_of_closes cs) = cs"
proof -
  have "map (bar_close \<circ> mk_bar) (enumerate n cs) = cs" for n
    by (induction cs arbitrary: n) (simp_all add: mk_bar_def)
  then show ?thesis by (simp add: closes_def bars_of_closes_def)
qed

lemma length_bars_of: "length (bars_of_closes cs) = length cs"
  by (simp add: bars_of_closes_def)

lemma fetch_adapter_of_7d:
  "fetch (adapter_of cs) ''7d'' s =
     Some (Weekly_hourly s, bar_payload s ''hourly_ohlcv_last_week'' (bars_of_closes cs),
           ''hourly_ohlcv_last_week'')"
  by (simp add: fetch_def adapter_of_def)

lemma bar_payload_error: "key \<noteq> ''error'' \<Longrightarrow> bar_payload s key bars ''error'' = None"
  by (simp add: bar_payload_def)

lemma bar_payload_key: "bar_payload s key bars key = Some (JBars bars)"
  by (simp add: bar_payload_def)

text \<open>Past the guards the reply is the result record: no branch of the body raises.\<close>

lemma trend_analysis_accepted:
  assumes "fetch ad period (upper symbol) = Some (call, data, key)"
    and "data ''error'' = None" and "data key = Some (JBars bars)" and "30 \<le> length bars"
  shows "trend_analysis ad symbol period = ([call], Record (result (upper symbol) period bars))"
  using assms by (simp add: trend_analysis_def analyse_def)

lemma trend_analysis_weekly:
  assumes "30 \<le> length cs"
  shows "trend_analysis (adapter_of cs) ''aapl'' ''7d'' =
           ([Weekly_hourly ''AAPL''], Record (result ''AAPL'' ''7d'' (bars_of_closes cs)))"
proof -
  have "trend_analysis (adapter_of cs) ''aapl'' ''7d'' =
          ([Weekly_hourly (upper ''aapl'')],
           Record (result (upper ''aapl'') ''7d'' (bars_of_closes cs)))"
  proof (rule trend_analysis_accepted)
    show "fetch (adapter_of cs) ''7d'' (upper ''aapl'') =
            Some (Weekly_hourly (upper ''aapl''),
                  bar_payload (upper ''aapl'') ''hourly_ohlcv_last_week'' (bars_of_closes cs),
                  ''hourly_ohlcv_last_week'')"
      by (rule fetch_adapter_of_7d)
    show "bar_payload (upper ''aapl'') ''hourly_ohlcv_last_week'' (bars_of_closes cs) ''error'' = None"
      by (simp add: bar_payload_error)
    show "bar_payload (upper ''aapl'') ''hourly_ohlcv_last_week'' (bars_of_closes cs)
            ''hourly_ohlcv_last_week'' = Some (JBars (bars_of_closes cs))"
      by (rule bar_payload_key)
    show "30 \<le> length (bars_of_closes cs)"
      using assms by (simp add: length_bars_of)
  qed
  then show ?thesis by (simp only: upper_aapl)
qed

lemma clamp_bounds: "0 \<le> max 0 (min 100 (x::int)) \<and> max 0 (min 100 x) \<le> 100"
  by simp

lemma score_bounds: "0 \<le> score bars \<and> score bars \<le> 100"
  unfolding score_def Let_def by (rule clamp_bounds)

lemma verdict_table: "verdict sc = spec_first_match sc spec_threshold_table"
  by (simp add: verdict_def spec_threshold_table_def)

lemma result_score:
  "record_field ''trend_strength_score'' (Record (result s p bars)) = Some (I (score bars))"
  by (simp add: result_def Let_def)

lemma result_verdict:
  "record_field ''trend_verdict'' (Record (result s p bars)) = Some (S (fst (verdict (score bars))))"
  by (simp add: result_def Let_def)

lemma result_confidence:
  "record_field ''confidence'' (Record (result s p bars)) = Some (S (snd (verdict (score bars))))"
  by (simp add: result_def Let_def)

lemma result_error: "record_field ''error'' (Record (result s p bars)) = None"
  by (simp add: result_def Let_def)

lemma result_symbol: "record_field ''symbol'' (Record (result s p bars)) = Some (S s)"
  by (simp add: result_def Let_def)

lemma result_pct:
  "record_field ''price_change_percent'' (Record (result s p bars))
     = Some (N (fp_round 2 (pct_change (closes bars))))"
  by (simp add: result_def Let_def)

lemma result_rsi:
  "key_signal ''rsi_14'' (Record (result s p bars)) = Some (N (Fin (py_round 2 (rsi (closes bars)))))"
  by (simp add: key_signal_def result_def Let_def)

lemma result_bollinger:
  "key_signal ''bollinger_position'' (Record (result s p bars))
     = Some (S (bollinger_position (closes bars)))"
  by (simp add: key_signal_def result_def Let_def)

lemma result_squeeze:
  "key_signal ''bb_squeeze'' (Record (result s p bars))
     = Some (S (if bb_squeeze (closes bars) then ''YES'' else ''NO''))"
  by (simp add: key_signal_def result_def Let_def)

section \<open>Score range and verdict table\<close>

text \<open>
  Claim C1. For every payload that passes the guards (a valid period, no error entry, a
  bar list of at least 30 bars), the returned record holds a score between 0 and 100,
  and its verdict and confidence are those of the threshold table of the specification
  read from the highest threshold down, the first matching row winning. The verdict is a
  function of the score, so no score has two verdicts.
\<close>

theorem trend_analysis_score_and_verdict:
  assumes "fetch ad period (upper symbol) = Some (call, data, key)"
    and "data ''error'' = None" and "data key = Some (JBars bars)" and "30 \<le> length bars"
  shows "\<exists>sc. 0 \<le> sc \<and> sc \<le> 100
           \<and> record_field ''trend_strength_score'' (snd (trend_analysis ad symbol period))
               = Some (I sc)
           \<and> record_field ''trend_verdict'' (snd (trend_analysis ad symbol period))
               = Some (S (fst (spec_first_match sc spec_threshold_table)))
           \<and> record_field ''confidence'' (snd (trend_analysis ad symbol period))
               = Some (S (snd (spec_first_match sc spec_threshold_table)))"
proof -
  have r: "snd (trend_analysis ad symbol period) = Record (result (upper symbol) period bars)"
    using trend_analysis_accepted [OF assms] by simp
  have "0 \<le> score bars" and "score bars \<le> 100"
    using score_bounds [of bars] by simp_all
  then show ?thesis
    unfolding r result_score result_verdict result_confidence verdict_table by blast
qed

theorem trend_analysis_score_and_verdict_witness:
  "\<exists>sc. 0 \<le> sc \<and> sc \<le> 100
     \<and> record_field ''trend_strength_score''
          (snd (trend_analysis (adapter_of rising_closes) ''aapl'' ''7d'')) = Some (I sc)
     \<and> record_field ''trend_verdict''
          (snd (trend_analysis (adapter_of rising_closes) ''aapl'' ''7d''))
         = Some (S (fst (spec_first_match sc spec_threshold_table)))
     \<and> record_field ''confidence''
          (snd (trend_analysis (adapter_of rising_closes) ''aapl'' ''7d''))
         = Some (S (snd (spec_first_match sc spec_threshold_table)))"
proof (rule trend_analysis_score_and_verdict)
  show "fetch (adapter_of rising_closes) ''7d'' (upper ''aapl'') =
          Some (Weekly_hourly (upper ''aapl''),
                bar_payload (upper ''aapl'') ''hourly_ohlcv_last_week'' (bars_of_closes rising_closes),
                ''hourly_ohlcv_last_week'')"
    by (rule fetch_adapter_of_7d)
  show "bar_payload (upper ''aapl'') ''hourly_ohlcv_last_week'' (bars_of_closes rising_closes)
          ''error'' = None"
    by (simp add: bar_payload_error)
  show "bar_payload (upper ''aapl'') ''hourly_ohlcv_last_week'' (bars_of_closes rising_closes)
          ''hourly_ohlcv_last_week'' = Some (JBars (bars_of_closes rising_closes))"
    by (rule bar_payload_key)
  show "30 \<le> length (bars_of_closes rising_closes)"
    by (simp add: length_bars_of rising_closes_def)
qed

section \<open>The composite score\<close>

lemma ema_trend_cases: "ema_trend c = ''bullish'' \<or> ema_trend c = ''bearish''"
  by (simp add: ema_trend_def)

lemma macd_signal_cases: "macd_signal c = ''bullish'' \<or> macd_signal c = ''bearish''"
  by (simp add: macd_signal_def)

lemma ema_delta:
  "(if ema_trend c = ''bullish'' then 15 else - 15)
     = (if ema_trend c = ''bullish'' then 15 else if ema_trend c = ''bearish'' then - 15 else (0::int))"
  using ema_trend_cases [of c] by auto

lemma macd_delta:
  "(if macd_signal c = ''bullish'' then 15 else - 15)
     = (if macd_signal c = ''bullish'' then 15
        else if macd_signal c = ''bearish'' then - 15 else (0::int))"
  using macd_signal_cases [of c] by auto

lemma score_sum:
  "score bars =
     max 0 (min 100
       (50
        + (if fp_gt (pct_change (closes bars)) 3 then 15
           else if fp_lt (pct_change (closes bars)) (- 3) then - 15 else 0)
        + (if ema_trend (closes bars) = ''bullish'' then 15
           else if ema_trend (closes bars) = ''bearish'' then - 15 else 0)
        + (if macd_signal (closes bars) = ''bullish'' then 15
           else if macd_signal (closes bars) = ''bearish'' then - 15 else 0)
        + (if rsi (closes bars) > 55 then 10 else if rsi (closes bars) < 45 then - 10 else 0)
        + (if last (closes bars) > sma20 (closes bars) then 10 else - 10)
        + (if vol_ratio (volumes bars) > 13 / 10 then 8 else - 8)))"
  unfolding score_def Let_def ema_delta macd_delta by (rule refl)

text \<open>
  Claim C2. The score of the returned record is the base 50 plus six deltas, each
  decided on its own and all summed, the sum then clamped to the range from 0 to 100:
  plus 15 when the percent change is above 3, minus 15 when it is below minus 3;
  plus or minus 15 for a bullish or bearish EMA trend; plus or minus 15 for a bullish or
  bearish MACD signal; plus 10 when the RSI is above 55, minus 10 when it is below 45;
  plus 10 when the last close is above the SMA-20, minus 10 otherwise; plus 8 when the
  volume ratio is above 1.3, minus 8 otherwise.
\<close>

theorem trend_analysis_composite_score:
  assumes "fetch ad period (upper symbol) = Some (call, data, key)"
    and "data ''error'' = None" and "data key = Some (JBars bars)" and "30 \<le> length bars"
  shows "record_field ''trend_strength_score'' (snd (trend_analysis ad symbol period)) =
     Some (I (max 0 (min 100
       (50
        + (if fp_gt (pct_change (closes bars)) 3 then 15
           else if fp_lt (pct_change (closes bars)) (- 3) then - 15 else 0)
        + (if ema_trend (closes bars) = ''bullish'' then 15
           else if ema_trend (closes bars) = ''bearish'' then - 15 else 0)
        + (if macd_signal (closes bars) = ''bullish'' then 15
           else if macd_signal (closes bars) = ''bearish'' then - 15 else 0)
        + (if rsi (closes bars) > 55 then 10 else if rsi (closes bars) < 45 then - 10 else 0)
        + (if last (closes bars) > sma20 (closes bars) then 10 else - 10)
        + (if vol_ratio (volumes bars) > 13 / 10 then 8 else - 8)))))"
proof -
  have r: "snd (trend_analysis ad symbol period) = Record (result (upper symbol) period bars)"
    using trend_analysis_accepted [OF assms] by simp
  show ?thesis
    unfolding r result_score by (simp only: score_sum [symmetric])
qed

theorem trend_analysis_composite_score_witness:
  "record_field ''trend_strength_score''
      (snd (trend_analysis (adapter_of flat_closes) ''aapl'' ''7d'')) =
     Some (I (max 0 (min 100
       (50
        + (if fp_gt (pct_change (closes (bars_of_closes flat_closes))) 3 then 15
           else if fp_lt (pct_change (closes (bars_of_closes flat_closes))) (- 3) then - 15 else 0)
        + (if ema_trend (closes (bars_of_closes flat_closes)) = ''bullish'' then 15
           else if ema_trend (closes (bars_of_closes flat_closes)) = ''bearish'' then - 15 else 0)
        + (if macd_signal (closes (bars_of_closes flat_closes)) = ''bullish'' then 15
           else if macd_signal (closes (bars_of_closes flat_closes)) = ''bearish'' then - 15 else 0)
        + (if rsi (closes (bars_of_closes flat_closes)) > 55 then 10
           else if rsi (closes (bars_of_closes flat_closes)) < 45 then - 10 else 0)
        + (if last (closes (bars_of_closes flat_closes)) > sma20 (closes (bars_of_closes flat_closes))
           then 10 else - 10)
        + (if vol_ratio (volumes (bars_of_closes flat_closes)) > 13 / 10 then 8 else - 8)))))"
proof (rule trend_analysis_composite_score)
  show "fetch (adapter_of flat_closes) ''7d'' (upper ''aapl'') =
          Some (Weekly_hourly (upper ''aapl''),
                bar_payload (upper ''aapl'') ''hourly_ohlcv_last_week'' (bars_of_closes flat_closes),
                ''hourly_ohlcv_last_week'')"
    by (rule fetch_adapter_of_7d)
  show "bar_payload (upper ''aapl'') ''hourly_ohlcv_last_week'' (bars_of_closes flat_closes)
          ''error'' = None"
    by (simp add: bar_payload_error)
  show "bar_payload (upper ''aapl'') ''hourly_ohlcv_last_week'' (bars_of_closes flat_closes)
          ''hourly_ohlcv_last_week'' = Some (JBars (bars_of_closes flat_closes))"
    by (rule bar_payload_key)
  show "30 \<le> length (bars_of_closes flat_closes)"
    by (simp add: length_bars_of flat_closes_def)
qed

text \<open>The sample of thirty equal closes, evaluated: every delta and the score 12.\<close>

lemma volumes_bars_of: "volumes (bars_of_closes cs) = map (\<lambda>c. 1000) cs"
proof -
  have "map ((\<lambda>b. real_of_int (bar_volume b)) \<circ> mk_bar) (enumerate n cs) = map (\<lambda>c. 1000) cs" for n
    by (induction cs arbitrary: n) (simp_all add: mk_bar_def)
  then show ?thesis by (simp add: volumes_def bars_of_closes_def)
qed

lemma flat_pct_change: "pct_change flat_closes = Fin 0"
  by (simp add: pct_change_def np_div_def flat_closes_def)

lemma flat_ema_trend: "ema_trend flat_closes = ''bearish''"
  by (simp add: ema_trend_def ema9_def ema21_def ewm_mean_noadjust_def flat_closes_def)

lemma flat_macd_line: "macd_line flat_closes = map (\<lambda>c. 0) flat_closes"
  by (simp add: macd_line_def series_minus_def ewm_mean_def flat_closes_def)

lemma flat_macd_signal: "macd_signal flat_closes = ''bearish''"
  unfolding macd_signal_def macd_hist_def signal_line_def flat_macd_line
  by (simp add: series_minus_def ewm_mean_def last_but_one_def flat_closes_def)

lemma flat_rsi: "rsi flat_closes = 10000 / 101"
  by (simp add: rsi_def rs_def avg_loss_def avg_gain_def rolling_mean_last_def mean_def
      last_n_def loss_def gain_def diff_def flat_closes_def)

lemma flat_sma20: "sma20 flat_closes = 10"
  by (simp add: sma20_def rolling_mean_last_def mean_def last_n_def flat_closes_def)

lemma flat_vol_ratio: "vol_ratio (volumes (bars_of_closes flat_closes)) = 1"
  by (simp add: volumes_bars_of vol_ratio_def vol_sma_def rolling_mean_last_def mean_def
      last_n_def flat_closes_def)

lemma flat_score: "score (bars_of_closes flat_closes) = 12"
  unfolding score_def Let_def closes_bars_of flat_pct_change flat_ema_trend flat_macd_signal
    flat_rsi flat_sma20 flat_vol_ratio
  by (simp add: flat_closes_def)

section \<open>The guards\<close>

text \<open>
  Claim C6. For a period other than 7d, 30d and 200d the function fetches nothing and
  computes nothing: the call log is empty and the reply is the record holding the
  message about the period. That record has the one entry \<open>error\<close>; it does not
  hold the symbol, which the other diagnostic records of the function do hold.
\<close>

theorem trend_analysis_bad_period:
  "trend_analysis ad ''aapl'' ''1y'' = ([], Record [(''error'', S period_error)])
   \<and> period_error = ''period must be '' @ [CHR 0x27] @ ''7d'' @ [CHR 0x27] @ '', ''
        @ [CHR 0x27] @ ''30d'' @ [CHR 0x27] @ '', or '' @ [CHR 0x27] @ ''200d'' @ [CHR 0x27]
   \<and> record_field ''symbol'' (snd (trend_analysis ad ''aapl'' ''1y'')) = None"
  by (simp add: trend_analysis_def fetch_def period_error_def quoted_def)

text \<open>The same for every period outside the three, and every symbol.\<close>

lemma trend_analysis_any_bad_period:
  assumes "period \<noteq> ''7d''" and "period \<noteq> ''30d''" and "period \<noteq> ''200d''"
  shows "trend_analysis ad symbol period = ([], Record [(''error'', S period_error)])"
  using assms by (simp add: trend_analysis_def fetch_def)

text \<open>
  Claim C7. When the payload of the fetcher has no error entry and its bar list has
  fewer than 30 bars, the reply is the warning record: the symbol and the message
  "Low bar count, accuracy reduced", and nothing else. The record is the same whatever
  the bars hold, so no indicator enters it; it has no score, verdict, confidence or
  error entry. The function has returned a value: nothing was raised.
\<close>

theorem trend_analysis_low_bar_count:
  assumes "fetch ad period (upper symbol) = Some (call, data, key)"
    and "data ''error'' = None" and "data key = Some (JBars bars)" and "length bars < 30"
  shows "trend_analysis ad symbol period =
           ([call], Record [(''symbol'', S (upper symbol)),
                            (''warning'', S ''Low bar count, accuracy reduced'')])
         \<and> record_field ''trend_strength_score'' (snd (trend_analysis ad symbol period)) = None
         \<and> record_field ''trend_verdict'' (snd (trend_analysis ad symbol period)) = None
         \<and> record_field ''confidence'' (snd (trend_analysis ad symbol period)) = None
         \<and> record_field ''error'' (snd (trend_analysis ad symbol period)) = None"
  using assms
  by (simp add: trend_analysis_def analyse_def warning_record_def low_bar_warning_def)

theorem trend_analysis_low_bar_count_witness:
  "trend_analysis (adapter_of short_closes) ''aapl'' ''7d'' =
     ([Weekly_hourly (upper ''aapl'')],
      Record [(''symbol'', S (upper ''aapl'')),
              (''warning'', S ''Low bar count, accuracy reduced'')])
   \<and> record_field ''trend_strength_score''
        (snd (trend_analysis (adapter_of short_closes) ''aapl'' ''7d'')) = None
   \<and> record_field ''trend_verdict''
        (snd (trend_analysis (adapter_of short_closes) ''aapl'' ''7d'')) = None
   \<and> record_field ''confidence''
        (snd (trend_analysis (adapter_of short_closes) ''aapl'' ''7d'')) = None
   \<and> record_field ''error''
        (snd (trend_analysis (adapter_of short_closes) ''aapl'' ''7d'')) = None"
proof (rule trend_analysis_low_bar_count)
  show "fetch (adapter_of short_closes) ''7d'' (upper ''aapl'') =
          Some (Weekly_hourly (upper ''aapl''),
                bar_payload (upper ''aapl'') ''hourly_ohlcv_last_week'' (bars_of_closes short_closes),
                ''hourly_ohlcv_last_week'')"
    by (rule fetch_adapter_of_7d)
  show "bar_payload (upper ''aapl'') ''hourly_ohlcv_last_week'' (bars_of_closes short_closes)
          ''error'' = None"
    by (simp add: bar_payload_error)
  show "bar_payload (upper ''aapl'') ''hourly_ohlcv_last_week'' (bars_of_closes short_closes)
          ''hourly_ohlcv_last_week'' = Some (JBars (bars_of_closes short_closes))"
    by (rule bar_payload_key)
  show "length (bars_of_closes short_closes) < 30"
    by (simp add: length_bars_of short_closes_def)
qed

text \<open>
  Claim C10. When the payload has no error entry and lacks the key under which the
  period's bars are expected, the lookup defaults to the empty list and the reply is
  the low-bar-count warning record: not an error record, and nothing is raised.
\<close>

theorem trend_analysis_missing_key:
  assumes "fetch ad period (upper symbol) = Some (call, data, key)"
    and "data ''error'' = None" and "data key = None"
  shows "trend_analysis ad symbol period =
           ([call], Record [(''symbol'', S (upper symbol)),
                            (''warning'', S ''Low bar count, accuracy reduced'')])
         \<and> record_field ''error'' (snd (trend_analysis ad symbol period)) = None"
  using assms
  by (simp add: trend_analysis_def analyse_def warning_record_def low_bar_warning_def)

lemma fetch_keyless_30d:
  "fetch keyless_adapter ''30d'' s =
     Some (Month_hourly s, [''symbol'' \<mapsto> JText s], ''hourly_ohlcv_1month'')"
  by (simp add: fetch_def keyless_adapter_def)

theorem trend_analysis_missing_key_witness:
  "trend_analysis keyless_adapter ''aapl'' ''30d'' =
     ([Month_hourly (upper ''aapl'')],
      Record [(''symbol'', S (upper ''aapl'')),
              (''warning'', S ''Low bar count, accuracy reduced'')])
   \<and> record_field ''error'' (snd (trend_analysis keyless_adapter ''aapl'' ''30d'')) = None"
proof (rule trend_analysis_missing_key)
  show "fetch keyless_adapter ''30d'' (upper ''aapl'') =
          Some (Month_hourly (upper ''aapl''), [''symbol'' \<mapsto> JText (upper ''aapl'')],
                ''hourly_ohlcv_1month'')"
    by (rule fetch_keyless_30d)
  show "[''symbol'' \<mapsto> JText (upper ''aapl'')] ''error'' = None"
    by simp
  show "[''symbol'' \<mapsto> JText (upper ''aapl'')] ''hourly_ohlcv_1month'' = None"
    by simp
qed

section \<open>Bollinger position and squeeze\<close>

lemma mean_constant:
  assumes "\<forall>x\<in>set xs. x = (v::real)" and "xs \<noteq> []"
  shows "mean xs = v"
proof -
  have "sum_list xs = real (length xs) * v"
    using assms(1) by (induction xs) (simp_all add: algebra_simps)
  moreover have "real (length xs) \<noteq> 0"
    using assms(2) by simp
  ultimately show ?thesis
    by (simp add: mean_def)
qed

lemma squares_constant:
  assumes "\<forall>x\<in>set xs. x = (v::real)"
  shows "sum_list (map (\<lambda>x. (x - v)\<^sup>2) xs) = 0"
  using assms by (induction xs) simp_all

lemma last_n_nonempty: "xs \<noteq> [] \<Longrightarrow> 0 < n \<Longrightarrow> last_n n xs \<noteq> []"
  by (cases xs) (auto simp: last_n_def)

lemma std20_constant:
  assumes "\<forall>x\<in>set (last_n 20 c). x = v" and "c \<noteq> []"
  shows "std20 c = 0"
proof -
  have ne: "last_n 20 c \<noteq> []"
    using assms(2) by (simp add: last_n_nonempty)
  have m: "mean (last_n 20 c) = v"
    using assms(1) ne by (rule mean_constant)
  show ?thesis
    unfolding std20_def rolling_std_last_def Let_def m
    by (simp add: squares_constant [OF assms(1)])
qed

lemma bands_equal_iff: "upper_band c = lower_band c \<longleftrightarrow> std20 c = 0"
  by (simp add: upper_band_def lower_band_def)

lemma bollinger_middle:
  assumes "upper_band c = lower_band c"
  shows "bb_position c = 1 / 2" and "bollinger_position c = ''middle''"
  using assms by (simp_all add: bb_position_def bollinger_position_def)

text \<open>
  Claim C8. In the record returned past the guards: when the upper and the lower band
  are equal, the Bollinger position is exactly 0.5 and the reported bucket is "middle";
  the bands are equal when the last 20 closes are all the same; and the squeeze flag is
  "YES" exactly when the band width, upper minus lower over the SMA-20, is below 0.08
  (and "NO" otherwise).
\<close>

theorem trend_analysis_bollinger:
  assumes "fetch ad period (upper symbol) = Some (call, data, key)"
    and "data ''error'' = None" and "data key = Some (JBars bars)" and "30 \<le> length bars"
  shows "(upper_band (closes bars) = lower_band (closes bars) \<longrightarrow>
            bb_position (closes bars) = 1 / 2
            \<and> key_signal ''bollinger_position'' (snd (trend_analysis ad symbol period))
                = Some (S ''middle''))
         \<and> ((\<forall>x\<in>set (last_n 20 (closes bars)). x = last (closes bars)) \<longrightarrow>
              upper_band (closes bars) = lower_band (closes bars))
         \<and> bb_width (closes bars)
             = np_div (upper_band (closes bars) - lower_band (closes bars)) (sma20 (closes bars))
         \<and> key_signal ''bb_squeeze'' (snd (trend_analysis ad symbol period))
             = Some (S (if fp_lt (bb_width (closes bars)) (8 / 100) then ''YES'' else ''NO''))
         \<and> (sma20 (closes bars) \<noteq> 0 \<longrightarrow>
              key_signal ''bb_squeeze'' (snd (trend_analysis ad symbol period))
                = Some (S (if (upper_band (closes bars) - lower_band (closes bars))
                                / sma20 (closes bars) < 8 / 100
                           then ''YES'' else ''NO'')))"
proof -
  have r: "snd (trend_analysis ad symbol period) = Record (result (upper symbol) period bars)"
    using trend_analysis_accepted [OF assms] by simp
  have ne: "closes bars \<noteq> []"
    using assms(4) by (auto simp: closes_def)
  have a: "upper_band (closes bars) = lower_band (closes bars) \<longrightarrow>
            bb_position (closes bars) = 1 / 2
            \<and> key_signal ''bollinger_position'' (snd (trend_analysis ad symbol period))
                = Some (S ''middle'')"
    unfolding r result_bollinger by (simp add: bollinger_middle)
  have b: "(\<forall>x\<in>set (last_n 20 (closes bars)). x = last (closes bars)) \<longrightarrow>
              upper_band (closes bars) = lower_band (closes bars)"
    using std20_constant [OF _ ne] by (simp add: bands_equal_iff)
  have c: "bb_width (closes bars)
             = np_div (upper_band (closes bars) - lower_band (closes bars)) (sma20 (closes bars))"
    by (simp add: bb_width_def)
  have d: "key_signal ''bb_squeeze'' (snd (trend_analysis ad symbol period))
             = Some (S (if fp_lt (bb_width (closes bars)) (8 / 100) then ''YES'' else ''NO''))"
    unfolding r result_squeeze by (simp add: bb_squeeze_def)
  have e: "sma20 (closes bars) \<noteq> 0 \<longrightarrow>
              key_signal ''bb_squeeze'' (snd (trend_analysis ad symbol period))
                = Some (S (if (upper_band (closes bars) - lower_band (closes bars))
                                / sma20 (closes bars) < 8 / 100
                           then ''YES'' else ''NO''))"
    unfolding d by (simp add: bb_width_def np_div_def)
  from a b c d e show ?thesis by (intro conjI)
qed

lemma flat_window: "\<forall>x\<in>set (last_n 20 flat_closes). x = last flat_closes"
  by (simp add: last_n_def flat_closes_def)

lemma flat_bands: "upper_band flat_closes = lower_band flat_closes"
  using std20_constant [of flat_closes 10] flat_window
  by (simp add: bands_equal_iff flat_closes_def)

theorem trend_analysis_bollinger_witness:
  "upper_band (closes (bars_of_closes flat_closes)) = lower_band (closes (bars_of_closes flat_closes))
   \<and> bb_position (closes (bars_of_closes flat_closes)) = 1 / 2
   \<and> key_signal ''bollinger_position'' (snd (trend_analysis (adapter_of flat_closes) ''aapl'' ''7d''))
       = Some (S ''middle'')
   \<and> sma20 (closes (bars_of_closes flat_closes)) = 10
   \<and> key_signal ''bb_squeeze'' (snd (trend_analysis (adapter_of flat_closes) ''aapl'' ''7d''))
       = Some (S ''YES'')"
proof -
  have f: "fetch (adapter_of flat_closes) ''7d'' (upper ''aapl'') =
          Some (Weekly_hourly (upper ''aapl''),
                bar_payload (upper ''aapl'') ''hourly_ohlcv_last_week'' (bars_of_closes flat_closes),
                ''hourly_ohlcv_last_week'')"
    by (rule fetch_adapter_of_7d)
  have e: "bar_payload (upper ''aapl'') ''hourly_ohlcv_last_week'' (bars_of_closes flat_closes)
          ''error'' = None"
    by (simp add: bar_payload_error)
  have k: "bar_payload (upper ''aapl'') ''hourly_ohlcv_last_week'' (bars_of_closes flat_closes)
          ''hourly_ohlcv_last_week'' = Some (JBars (bars_of_closes flat_closes))"
    by (rule bar_payload_key)
  have l: "30 \<le> length (bars_of_closes flat_closes)"
    by (simp add: length_bars_of flat_closes_def)
  note t = trend_analysis_bollinger [OF f e k l, unfolded closes_bars_of]
  have b: "upper_band flat_closes = lower_band flat_closes"
    by (rule flat_bands)
  have s: "sma20 flat_closes = 10"
    by (rule flat_sma20)
  from t b s show ?thesis
    unfolding closes_bars_of by (simp add: np_div_def)
qed

section \<open>The RSI of an all-gain window\<close>

lemma length_diff: "length (diff xs) = length xs - 1"
  by (simp add: diff_def)

lemma last_n_map: "last_n n (map f xs) = map f (last_n n xs)"
  by (simp add: last_n_def drop_map)

lemma length_last_n: "n \<le> length xs \<Longrightarrow> length (last_n n xs) = n"
  by (simp add: last_n_def)

lemma loss_sum_zero:
  assumes "list_all (\<lambda>d. 0 \<le> d) (ds :: real list)"
  shows "sum_list (map (\<lambda>d. if d < 0 then - d else 0) ds) = 0"
  using assms by (induction ds) simp_all

lemma gain_sum_nonneg: "0 \<le> sum_list (map (\<lambda>d. if d > 0 then d else 0) (ds :: real list))"
  by (induction ds) simp_all

lemma gain_sum_positive:
  assumes "list_ex (\<lambda>d. 0 < d) (ds :: real list)"
  shows "0 < sum_list (map (\<lambda>d. if d > 0 then d else 0) ds)"
  using assms
proof (induction ds)
  case Nil
  then show ?case by simp
next
  case (Cons d ds)
  show ?case
  proof (cases "0 < d")
    case True
    then show ?thesis
      using gain_sum_nonneg [of ds] by simp
  next
    case False
    then have "list_ex (\<lambda>d. 0 < d) ds"
      using Cons.prems by simp
    then show ?thesis
      using Cons.IH False by simp
  qed
qed

lemma all_gain_avg_loss:
  assumes "all_gain_window c"
  shows "avg_loss c = 0"
proof -
  have "list_all (\<lambda>d. 0 \<le> d) (last_n 14 (diff c))"
    using assms by (simp add: all_gain_window_def)
  then show ?thesis
    by (simp add: avg_loss_def loss_def rolling_mean_last_def last_n_map mean_def loss_sum_zero)
qed

lemma all_gain_avg_gain:
  assumes "all_gain_window c" and "15 \<le> length c"
  shows "0 < avg_gain c"
proof -
  have "list_ex (\<lambda>d. 0 < d) (last_n 14 (diff c))"
    using assms(1) by (simp add: all_gain_window_def)
  then have s: "0 < sum_list (map (\<lambda>d. if d > 0 then d else 0) (last_n 14 (diff c)))"
    by (rule gain_sum_positive)
  have "length (last_n 14 (diff c)) = 14"
    using assms(2) by (simp add: length_last_n length_diff)
  then show ?thesis
    using s by (simp add: avg_gain_def gain_def rolling_mean_last_def last_n_map mean_def)
qed

lemma all_gain_rsi:
  assumes "all_gain_window c"
  shows "rs c = 100" and "rsi c = 100 - 100 / (1 + 100)"
  using all_gain_avg_loss [OF assms] by (simp_all add: rs_def rsi_def)

lemma round_rsi: "py_round 2 (100 - 100 / (1 + 100)) = 9901 / 100"
  by (simp add: py_round_def round_half_even_def Let_def)

lemma rising_all_gain: "all_gain_window rising_closes"
  by (simp add: all_gain_window_def last_n_def diff_def rising_closes_def)

lemma from_zero_all_gain: "all_gain_window from_zero_closes"
  by (simp add: all_gain_window_def last_n_def diff_def from_zero_closes_def)

text \<open>
  Claim C4, as the code has it. For every accepted series of at least 30 bars whose
  last 14 close-to-close deltas are all non-negative with at least one positive, the
  average loss is 0 and the average gain is positive, no division by zero is made (the
  reply is the result record, with no error entry), RS takes the conventional value 100
  and the RSI is 100 - 100 / (1 + 100), so the reported \<open>rsi_14\<close> is 99.01, not 100.
\<close>

theorem trend_analysis_all_gain_rsi:
  assumes "fetch ad period (upper symbol) = Some (call, data, key)"
    and "data ''error'' = None" and "data key = Some (JBars bars)" and "30 \<le> length bars"
    and "all_gain_window (closes bars)"
  shows "avg_loss (closes bars) = 0 \<and> 0 < avg_gain (closes bars)
         \<and> rs (closes bars) = 100
         \<and> rsi (closes bars) = 100 - 100 / (1 + 100)
         \<and> key_signal ''rsi_14'' (snd (trend_analysis ad symbol period))
             = Some (N (Fin (9901 / 100)))
         \<and> record_field ''error'' (snd (trend_analysis ad symbol period)) = None"
proof -
  have r: "snd (trend_analysis ad symbol period) = Record (result (upper symbol) period bars)"
    using trend_analysis_accepted [OF assms(1-4)] by simp
  have len: "15 \<le> length (closes bars)"
    using assms(4) by (simp add: closes_def)
  have a: "avg_loss (closes bars) = 0"
    using assms(5) by (rule all_gain_avg_loss)
  have b: "0 < avg_gain (closes bars)"
    using assms(5) len by (rule all_gain_avg_gain)
  have c: "rs (closes bars) = 100"
    using assms(5) by (rule all_gain_rsi)
  have d: "rsi (closes bars) = 100 - 100 / (1 + 100)"
    using assms(5) by (rule all_gain_rsi)
  have e: "key_signal ''rsi_14'' (snd (trend_analysis ad symbol period))
             = Some (N (Fin (9901 / 100)))"
    unfolding r result_rsi d round_rsi by (rule refl)
  have f: "record_field ''error'' (snd (trend_analysis ad symbol period)) = None"
    unfolding r by (rule result_error)
  from a b c d e f show ?thesis by (intro conjI)
qed

theorem trend_analysis_all_gain_rsi_witness:
  "all_gain_window (closes (bars_of_closes from_zero_closes))
   \<and> avg_loss (closes (bars_of_closes from_zero_closes)) = 0
   \<and> 0 < avg_gain (closes (bars_of_closes from_zero_closes))
   \<and> rs (closes (bars_of_closes from_zero_closes)) = 100
   \<and> rsi (closes (bars_of_closes from_zero_closes)) = 100 - 100 / (1 + 100)
   \<and> key_signal ''rsi_14'' (snd (trend_analysis (adapter_of from_zero_closes) ''aapl'' ''7d''))
       = Some (N (Fin (9901 / 100)))
   \<and> record_field ''error'' (snd (trend_analysis (adapter_of from_zero_closes) ''aapl'' ''7d''))
       = None"
proof -
  have f: "fetch (adapter_of from_zero_closes) ''7d'' (upper ''aapl'') =
          Some (Weekly_hourly (upper ''aapl''),
                bar_payload (upper ''aapl'') ''hourly_ohlcv_last_week''
                  (bars_of_closes from_zero_closes),
                ''hourly_ohlcv_last_week'')"
    by (rule fetch_adapter_of_7d)
  have e: "bar_payload (upper ''aapl'') ''hourly_ohlcv_last_week''
             (bars_of_closes from_zero_closes) ''error'' = None"
    by (simp add: bar_payload_error)
  have k: "bar_payload (upper ''aapl'') ''hourly_ohlcv_last_week''
             (bars_of_closes from_zero_closes) ''hourly_ohlcv_last_week''
           = Some (JBars (bars_of_closes from_zero_closes))"
    by (rule bar_payload_key)
  have l: "30 \<le> length (bars_of_closes from_zero_closes)"
    by (simp add: length_bars_of from_zero_closes_def)
  have g: "all_gain_window (closes (bars_of_closes from_zero_closes))"
    unfolding closes_bars_of by (rule from_zero_all_gain)
  show ?thesis
    using g trend_analysis_all_gain_rsi [OF f e k l g] by (intro conjI) simp_all
qed

text \<open>
  The claim as the specification states it, with \<open>rsi_14\<close> equal to 100, fails on thirty
  closes rising from 1 to 30: the window is all gain and the reported value is 99.01.
\<close>

theorem rsi_all_gain_counterexample:
  "30 \<le> length (bars_of_closes rising_closes)
   \<and> all_gain_window (closes (bars_of_closes rising_closes))
   \<and> key_signal ''rsi_14'' (snd (trend_analysis (adapter_of rising_closes) ''aapl'' ''7d''))
       = Some (N (Fin (9901 / 100)))
   \<and> key_signal ''rsi_14'' (snd (trend_analysis (adapter_of rising_closes) ''aapl'' ''7d''))
       \<noteq> Some (N (Fin 100))"
proof -
  have l: "30 \<le> length rising_closes"
    by (simp add: rising_closes_def)
  have r: "snd (trend_analysis (adapter_of rising_closes) ''aapl'' ''7d'')
             = Record (result ''AAPL'' ''7d'' (bars_of_closes rising_closes))"
    using trend_analysis_weekly [OF l] by simp
  have v: "key_signal ''rsi_14'' (snd (trend_analysis (adapter_of rising_closes) ''aapl'' ''7d''))
             = Some (N (Fin (9901 / 100)))"
    unfolding r result_rsi closes_bars_of all_gain_rsi(2) [OF rising_all_gain] round_rsi
    by (rule refl)
  show ?thesis
    using l rising_all_gain v by (simp add: length_bars_of closes_bars_of)
qed

section \<open>A first close of zero\<close>

text \<open>
  The percent change divides by the first close with no guard. Where the first close is
  zero the quotient is an infinity or NaN, nothing is raised, and the reply is still the
  result record.
\<close>

lemma pct_change_zero_first:
  assumes "hd c = 0"
  shows "pct_change c = PInf \<or> pct_change c = NInf \<or> pct_change c = NaN"
  using assms by (simp add: pct_change_def np_div_def)

lemma zero_first_close_no_error:
  assumes "fetch ad period (upper symbol) = Some (call, data, key)"
    and "data ''error'' = None" and "data key = Some (JBars bars)" and "30 \<le> length bars"
    and "hd (closes bars) = 0"
  shows "record_field ''error'' (snd (trend_analysis ad symbol period)) = None"
    and "record_field ''price_change_percent'' (snd (trend_analysis ad symbol period))
           \<in> {Some (N PInf), Some (N NInf), Some (N NaN)}"
proof -
  have r: "snd (trend_analysis ad symbol period) = Record (result (upper symbol) period bars)"
    using trend_analysis_accepted [OF assms(1-4)] by simp
  show "record_field ''error'' (snd (trend_analysis ad symbol period)) = None"
    unfolding r by (rule result_error)
  show "record_field ''price_change_percent'' (snd (trend_analysis ad symbol period))
           \<in> {Some (N PInf), Some (N NInf), Some (N NaN)}"
    unfolding r result_pct using pct_change_zero_first [OF assms(5)] by auto
qed

lemma from_zero_pct_change: "pct_change from_zero_closes = PInf"
  by (simp add: pct_change_def np_div_def from_zero_closes_def)

lemma from_zero_ema_trend: "ema_trend from_zero_closes = ''bullish''"
  by (simp add: ema_trend_def ema9_def ema21_def ewm_mean_noadjust_def from_zero_closes_def)

lemma from_zero_rsi: "rsi from_zero_closes = 10000 / 101"
  using all_gain_rsi(2) [OF from_zero_all_gain] by simp

lemma from_zero_sma20: "sma20 from_zero_closes = 39 / 2"
  by (simp add: sma20_def rolling_mean_last_def mean_def last_n_def from_zero_closes_def)

lemma from_zero_last: "last from_zero_closes = 29"
  by (simp add: from_zero_closes_def)

lemma from_zero_vol_ratio: "vol_ratio (volumes (bars_of_closes from_zero_closes)) = 1"
  by (simp add: volumes_bars_of vol_ratio_def vol_sma_def rolling_mean_last_def mean_def
      last_n_def from_zero_closes_def)

lemma from_zero_score: "75 \<le> score (bars_of_closes from_zero_closes)"
  unfolding score_sum closes_bars_of from_zero_pct_change from_zero_ema_trend from_zero_rsi
    from_zero_sma20 from_zero_last from_zero_vol_ratio
  using macd_signal_cases [of from_zero_closes] by auto

lemma verdict_very_bullish: "75 \<le> sc \<Longrightarrow> verdict sc = (''VERY BULLISH'', ''High'')"
  by (simp add: verdict_def)

text \<open>
  Claim C5. The specification asks for a numeric diagnostic when the first close is zero.
  On thirty closes that rise from 0 to 29 the function returns a result record instead:
  the percent change is infinite, there is no error entry, and the verdict is VERY BULLISH.
\<close>

theorem trend_analysis_zero_first_close:
  "hd (closes (bars_of_closes from_zero_closes)) = 0
   \<and> length (bars_of_closes from_zero_closes) = 30
   \<and> fst (trend_analysis (adapter_of from_zero_closes) ''aapl'' ''7d'') = [Weekly_hourly ''AAPL'']
   \<and> record_field ''symbol'' (snd (trend_analysis (adapter_of from_zero_closes) ''aapl'' ''7d''))
       = Some (S ''AAPL'')
   \<and> record_field ''error'' (snd (trend_analysis (adapter_of from_zero_closes) ''aapl'' ''7d''))
       = None
   \<and> record_field ''price_change_percent''
        (snd (trend_analysis (adapter_of from_zero_closes) ''aapl'' ''7d'')) = Some (N PInf)
   \<and> record_field ''trend_verdict''
        (snd (trend_analysis (adapter_of from_zero_closes) ''aapl'' ''7d''))
       = Some (S ''VERY BULLISH'')
   \<and> record_field ''confidence''
        (snd (trend_analysis (adapter_of from_zero_closes) ''aapl'' ''7d''))
       = Some (S ''High'')"
proof -
  have l: "30 \<le> length from_zero_closes"
    by (simp add: from_zero_closes_def)
  have t: "trend_analysis (adapter_of from_zero_closes) ''aapl'' ''7d'' =
             ([Weekly_hourly ''AAPL''],
              Record (result ''AAPL'' ''7d'' (bars_of_closes from_zero_closes)))"
    using l by (rule trend_analysis_weekly)
  have v: "verdict (score (bars_of_closes from_zero_closes)) = (''VERY BULLISH'', ''High'')"
    using from_zero_score by (rule verdict_very_bullish)
  have h: "hd (closes (bars_of_closes from_zero_closes)) = 0"
    unfolding closes_bars_of by (simp add: from_zero_closes_def)
  have n: "length (bars_of_closes from_zero_closes) = 30"
    by (simp add: length_bars_of from_zero_closes_def)
  show ?thesis
    unfolding t snd_conv fst_conv result_symbol result_error result_pct result_verdict
      result_confidence v closes_bars_of from_zero_pct_change
    using h n by (simp add: closes_bars_of)
qed

section \<open>The exponential averages of the MACD\<close>

text \<open>
  The EMA of the crossover (spans 9 and 21) is the recurrence that the specification
  states. The three averages of the MACD are taken with pandas' default setting, the
  bias-adjusted weighted mean, which is a different series.
\<close>

lemma spec_ema_from_ewm_rec: "spec_ema_from a y xs = ewm_rec a y xs"
  by (induction xs arbitrary: y) (simp_all add: algebra_simps)

lemma spec_ema_noadjust: "spec_ema n xs = ewm_mean_noadjust n xs"
  by (cases xs) (simp_all add: ewm_mean_noadjust_def spec_ema_from_ewm_rec)

lemma length_ewm_adj_rec: "length (ewm_adj_rec a num den xs) = length xs"
  by (induction xs arbitrary: num den) simp_all

lemma length_ewm_mean: "length (ewm_mean n xs) = length xs"
  by (cases xs) (simp_all add: ewm_mean_def length_ewm_adj_rec)

lemma length_macd_line: "length (macd_line c) = length c"
  by (simp add: macd_line_def series_minus_def length_ewm_mean)

lemma length_signal_line: "length (signal_line c) = length c"
  by (simp add: signal_line_def length_ewm_mean length_macd_line)

text \<open>The histogram is the line minus the signal line at each index.\<close>

lemma macd_hist_nth:
  assumes "i < length c"
  shows "macd_hist c ! i = macd_line c ! i - signal_line c ! i"
  using assms
  by (simp add: macd_hist_def series_minus_def length_macd_line length_signal_line)

lemma macd_line_second:
  "macd_line (a # b # rest) ! 1
     = (b + (11 / 13) * a) / (1 + 11 / 13) - (b + (25 / 27) * a) / (1 + 25 / 27)"
  by (simp add: macd_line_def series_minus_def ewm_mean_def)

lemma spec_macd_line_second:
  "spec_macd_line (a # b # rest) ! 1
     = ((2 / 13) * b + (11 / 13) * a) - ((2 / 27) * b + (25 / 27) * a)"
  by (simp add: spec_macd_line_def)

text \<open>
  Claim C3. The specification has every EMA, those of the MACD included, follow the
  recurrence seeded by the first value with no bias adjustment. On thirty closes rising
  from 1 to 30 the MACD line of the code differs from EMA(12) minus EMA(26) of that
  recurrence already at the second bar: 7/312 against 28/351.
\<close>

theorem macd_line_not_spec_ema:
  "length rising_closes = 30
   \<and> macd_line rising_closes ! 1 = 7 / 312
   \<and> spec_macd_line rising_closes ! 1 = 28 / 351
   \<and> macd_line rising_closes \<noteq> spec_macd_line rising_closes"
proof -
  have a: "macd_line rising_closes ! 1 = 7 / 312"
    unfolding rising_closes_def macd_line_second by simp
  have b: "spec_macd_line rising_closes ! 1 = 28 / 351"
    unfolding rising_closes_def spec_macd_line_second by simp
  have "macd_line rising_closes ! 1 \<noteq> spec_macd_line rising_closes ! 1"
    unfolding a b by simp
  then have c: "macd_line rising_closes \<noteq> spec_macd_line rising_closes"
    by auto
  have d: "length rising_closes = 30"
    by (simp add: rising_closes_def)
  from a b c d show ?thesis by (intro conjI)
qed

end
